theory Spec2Isabelle
  imports Complex_Main
begin

section \<open>Strings\<close>

text \<open>
  A Python string is a \<open>string\<close>, a list of characters, and a character is a code point
  below 256: the ASCII characters and the Latin-1 supplement. Strings with a code point
  from 256 on are outside the model.

  \<open>lower\<close> is \<open>str.lower()\<close>. Below 256 the upper-case letters are A to Z and the code
  points 0xC0 to 0xDE without the multiplication sign 0xD7; each is mapped to the code
  point 32 above it, and every other character is left alone.
\<close>

definition upper_chars :: "char list" where
  "upper_chars =
     ''ABCDEFGHIJKLMNOPQRSTUVWXYZ''
     @ [CHR 0xC0, CHR 0xC1, CHR 0xC2, CHR 0xC3, CHR 0xC4, CHR 0xC5, CHR 0xC6, CHR 0xC7,
        CHR 0xC8, CHR 0xC9, CHR 0xCA, CHR 0xCB, CHR 0xCC, CHR 0xCD, CHR 0xCE, CHR 0xCF,
        CHR 0xD0, CHR 0xD1, CHR 0xD2, CHR 0xD3, CHR 0xD4, CHR 0xD5, CHR 0xD6,
        CHR 0xD8, CHR 0xD9, CHR 0xDA, CHR 0xDB, CHR 0xDC, CHR 0xDD, CHR 0xDE]"

definition lower_chars :: "char list" where
  "lower_chars =
     ''abcdefghijklmnopqrstuvwxyz''
     @ [CHR 0xE0, CHR 0xE1, CHR 0xE2, CHR 0xE3, CHR 0xE4, CHR 0xE5, CHR 0xE6, CHR 0xE7,
        CHR 0xE8, CHR 0xE9, CHR 0xEA, CHR 0xEB, CHR 0xEC, CHR 0xED, CHR 0xEE, CHR 0xEF,
        CHR 0xF0, CHR 0xF1, CHR 0xF2, CHR 0xF3, CHR 0xF4, CHR 0xF5, CHR 0xF6,
        CHR 0xF8, CHR 0xF9, CHR 0xFA, CHR 0xFB, CHR 0xFC, CHR 0xFD, CHR 0xFE]"

definition lower_char :: "char \<Rightarrow> char" where
  "lower_char c =
     (case map_of (zip upper_chars lower_chars) c of
        Some d \<Rightarrow> d
      | None \<Rightarrow> c)"

definition lower :: "string \<Rightarrow> string" where
  "lower s = map lower_char s"

fun startswith :: "string \<Rightarrow> string \<Rightarrow> bool" where
  "startswith s [] = True"
| "startswith [] (p # ps) = False"
| "startswith (c # cs) (p # ps) = (c = p \<and> startswith cs ps)"

text \<open>\<open>strip_prefix p s\<close> is the rest of \<open>s\<close> after the literal \<open>p\<close>, when \<open>s\<close> starts with it.\<close>

fun strip_prefix :: "string \<Rightarrow> string \<Rightarrow> string option" where
  "strip_prefix [] s = Some s"
| "strip_prefix (p # ps) [] = None"
| "strip_prefix (p # ps) (c # cs) = (if p = c then strip_prefix ps cs else None)"

text \<open>Python's \<open>v in s\<close> on strings: \<open>v\<close> occurs in \<open>s\<close> as a contiguous substring.\<close>

fun contains :: "string \<Rightarrow> string \<Rightarrow> bool" where
  "contains [] v = (v = [])"
| "contains (c # cs) v = (startswith (c # cs) v \<or> contains cs v)"

text \<open>
  The whitespace class \<open>\s\<close> of a Python 3 string pattern, which is \<open>str.isspace()\<close> on
  one character: tab, line feed, vertical tab, form feed, carriage return, the four
  separators 0x1C to 0x1F, space, next line 0x85 and no-break space 0xA0.
\<close>

definition is_space :: "char \<Rightarrow> bool" where
  "is_space c =
     (c \<in> set [CHR 0x09, CHR 0x0A, CHR 0x0B, CHR 0x0C, CHR 0x0D,
                CHR 0x1C, CHR 0x1D, CHR 0x1E, CHR 0x1F, CHR 0x20, CHR 0x85, CHR 0xA0])"

text \<open>\<open>orelse\<close> is the backtracking choice of the regular-expression matcher: the first
  alternative wins, the second is tried only when the first fails.\<close>

definition orelse :: "'a option \<Rightarrow> 'a option \<Rightarrow> 'a option" where
  "orelse a b = (case a of Some x \<Rightarrow> Some x | None \<Rightarrow> b)"

section \<open>Filters\<close>

text \<open>
  \<open>class WatchlistFilter\<close>: the fields \<open>id\<close>, \<open>type\<close> and \<open>value\<close>, all strings.
  The type is a free string in the source (the five kinds are compared by name and every
  other string falls into the \<open>else\<close> branches).
\<close>

record WatchlistFilter =
  fid :: string
  ftype :: string
  fvalue :: string

subsection \<open>normalize_twitter_handle\<close>

text \<open>
  The pattern
  \<^verbatim>\<open>(?:https?:\/\/)?(?:www\.)?(?:twitter\.com|x\.com)\/(?:#!\/)?@?([^/?\s]+)\<close>
  matched at the start of a string, piece by piece from the right. Each function returns
  group 1 when the rest of the pattern matches the given text. Optional pieces are greedy:
  they are taken first and given up only when the remainder then fails.
\<close>

definition handle_char :: "char \<Rightarrow> bool" where
  "handle_char c = (c \<noteq> CHR ''/'' \<and> c \<noteq> CHR ''?'' \<and> \<not> is_space c)"

definition re_group :: "string \<Rightarrow> string option" where
  "re_group s = (let g = takeWhile handle_char s in if g = [] then None else Some g)"

definition re_at :: "string \<Rightarrow> string option" where
  "re_at s =
     orelse (case strip_prefix ''@'' s of Some r \<Rightarrow> re_group r | None \<Rightarrow> None) (re_group s)"

definition re_hashbang :: "string \<Rightarrow> string option" where
  "re_hashbang s =
     orelse (case strip_prefix ''#!/'' s of Some r \<Rightarrow> re_at r | None \<Rightarrow> None) (re_at s)"

definition re_slash :: "string \<Rightarrow> string option" where
  "re_slash s = (case strip_prefix ''/'' s of Some r \<Rightarrow> re_hashbang r | None \<Rightarrow> None)"

definition re_domain :: "string \<Rightarrow> string option" where
  "re_domain s =
     orelse (case strip_prefix ''twitter.com'' s of Some r \<Rightarrow> re_slash r | None \<Rightarrow> None)
            (case strip_prefix ''x.com'' s of Some r \<Rightarrow> re_slash r | None \<Rightarrow> None)"

definition re_www :: "string \<Rightarrow> string option" where
  "re_www s =
     orelse (case strip_prefix ''www.'' s of Some r \<Rightarrow> re_domain r | None \<Rightarrow> None)
            (re_domain s)"

definition re_scheme :: "string \<Rightarrow> string option" where
  "re_scheme s =
     (case strip_prefix ''http'' s of
        None \<Rightarrow> None
      | Some r \<Rightarrow>
          orelse (case strip_prefix ''s://'' r of Some r' \<Rightarrow> re_www r' | None \<Rightarrow> None)
                 (case strip_prefix ''://'' r of Some r' \<Rightarrow> re_www r' | None \<Rightarrow> None))"

definition twitter_url_match_at :: "string \<Rightarrow> string option" where
  "twitter_url_match_at s = orelse (re_scheme s) (re_www s)"

text \<open>\<open>re.search\<close>: the match at the leftmost position of the string where the pattern
  matches; \<open>None\<close> when it matches nowhere.\<close>

fun twitter_url_search :: "string \<Rightarrow> string option" where
  "twitter_url_search [] = twitter_url_match_at []"
| "twitter_url_search (c # cs) =
     orelse (twitter_url_match_at (c # cs)) (twitter_url_search cs)"

definition normalize_twitter_handle :: "string \<Rightarrow> string" where
  "normalize_twitter_handle handle =
     (if handle = [] then []
      else
        let normalized = lower handle;
            normalized = (case twitter_url_search normalized of
                            Some g \<Rightarrow> g
                          | None \<Rightarrow> normalized)
        in if startswith normalized ''@'' then tl normalized else normalized)"

subsection \<open>normalize_url\<close>

text \<open>
  \<^verbatim>\<open>re.sub(r'^(https?:\/\/)?(www\.)?', '', url.lower()).rstrip('/')\<close>: the pattern is
  anchored and all of it is optional, so it matches once, at the start, and removes the
  scheme when there is one and then \<open>www.\<close> when there is one.
\<close>

definition strip_scheme :: "string \<Rightarrow> string" where
  "strip_scheme s =
     (case strip_prefix ''https://'' s of
        Some r \<Rightarrow> r
      | None \<Rightarrow> (case strip_prefix ''http://'' s of Some r \<Rightarrow> r | None \<Rightarrow> s))"

definition strip_www :: "string \<Rightarrow> string" where
  "strip_www s = (case strip_prefix ''www.'' s of Some r \<Rightarrow> r | None \<Rightarrow> s)"

definition rstrip_slash :: "string \<Rightarrow> string" where
  "rstrip_slash s = rev (dropWhile (\<lambda>c. c = CHR ''/'') (rev s))"

definition normalize_url :: "string \<Rightarrow> string" where
  "normalize_url url =
     (if url = [] then [] else rstrip_slash (strip_www (strip_scheme (lower url))))"

subsection \<open>int() on a string\<close>

text \<open>
  \<open>py_int\<close> is Python's \<open>int(s)\<close> in base 10, with \<open>None\<close> for \<open>ValueError\<close>. Surrounding
  whitespace is dropped; \<open>int\<close> takes for whitespace the six ASCII characters tab, line
  feed, vertical tab, form feed, carriage return and space, and the two spaces 0x85 and
  0xA0, but not the separators 0x1C to 0x1F. One sign is allowed and the digits 0 to 9 may
  be separated by single underscores. A text of more than 4300 digits is refused (the
  default limit of CPython on the conversion of strings to integers).

  \<open>isdigit\<close> is \<open>str.isdigit()\<close>: the string is not empty and each character is one of 0
  to 9 or one of the superscript digits 0xB2, 0xB3 and 0xB9, which \<open>int\<close> refuses.
\<close>

definition int_space :: "char \<Rightarrow> bool" where
  "int_space c =
     (c \<in> set [CHR 0x09, CHR 0x0A, CHR 0x0B, CHR 0x0C, CHR 0x0D, CHR 0x20, CHR 0x85, CHR 0xA0])"

definition max_str_digits :: nat where
  "max_str_digits = 4300"

definition is_digit :: "char \<Rightarrow> bool" where
  "is_digit c = (c \<in> set ''0123456789'')"

definition digit_val :: "char \<Rightarrow> int" where
  "digit_val c =
     (case map_of (zip ''0123456789'' [0, 1, 2, 3, 4, 5, 6, 7, 8, 9]) c of
        Some d \<Rightarrow> d
      | None \<Rightarrow> 0)"

definition strip_ws :: "string \<Rightarrow> string" where
  "strip_ws s = rev (dropWhile int_space (rev (dropWhile int_space s)))"

text \<open>\<open>digits_val acc s\<close> reads \<open>s\<close> after at least one digit has been read:
  a digit, or an underscore followed by a digit.\<close>

fun digits_val :: "int \<Rightarrow> string \<Rightarrow> int option" where
  "digits_val acc [] = Some acc"
| "digits_val acc [c] = (if is_digit c then Some (acc * 10 + digit_val c) else None)"
| "digits_val acc (c # d # cs) =
     (if is_digit c then digits_val (acc * 10 + digit_val c) (d # cs)
      else if c = CHR ''_'' \<and> is_digit d then digits_val acc (d # cs)
      else None)"

definition unsigned_val :: "string \<Rightarrow> int option" where
  "unsigned_val s =
     (case s of
        [] \<Rightarrow> None
      | c # cs \<Rightarrow>
          if is_digit c \<and> length (filter is_digit s) \<le> max_str_digits
          then digits_val (digit_val c) cs
          else None)"

definition py_int :: "string \<Rightarrow> int option" where
  "py_int s =
     (case strip_ws s of
        [] \<Rightarrow> None
      | c # cs \<Rightarrow>
          if c = CHR ''-'' then map_option uminus (unsigned_val cs)
          else if c = CHR ''+'' then unsigned_val cs
          else unsigned_val (c # cs))"

definition isdigit :: "string \<Rightarrow> bool" where
  "isdigit s =
     (s \<noteq> [] \<and> list_all (\<lambda>c. is_digit c \<or> c \<in> set [CHR 0xB2, CHR 0xB3, CHR 0xB9]) s)"

subsection \<open>are_filters_equal\<close>

definition are_filters_equal :: "WatchlistFilter \<Rightarrow> WatchlistFilter \<Rightarrow> bool" where
  "are_filters_equal filter1 filter2 =
     (if ftype filter1 \<noteq> ftype filter2 then False
      else if ftype filter1 = ''twitter'' then
        normalize_twitter_handle (fvalue filter1) = normalize_twitter_handle (fvalue filter2)
      else if ftype filter1 = ''website'' then
        normalize_url (fvalue filter1) = normalize_url (fvalue filter2)
      else if ftype filter1 = ''token'' \<or> ftype filter1 = ''wallet'' then
        lower (fvalue filter1) = lower (fvalue filter2)
      else if ftype filter1 = ''believe'' then
        (case (py_int (fvalue filter1), py_int (fvalue filter2)) of
           (Some a, Some b) \<Rightarrow> a = b
         | _ \<Rightarrow> fvalue filter1 = fvalue filter2)
      else fvalue filter1 = fvalue filter2)"

section \<open>Tokens and the matcher\<close>

text \<open>
  A token is a Python dictionary with string keys. Its values are what the feeds put
  there, which are the values that \<open>response.json()\<close> returns: \<open>None\<close>, booleans, integers,
  floats, strings, lists and dictionaries with string keys. A float is a rational number
  here; the infinities and NaN, which are truthy like every float except zero, are not told
  apart from other non-zero floats. A dictionary is an association list read with
  \<open>map_of\<close>; a parsed dictionary has no key twice, and \<open>[]\<close> is the empty dictionary, which
  Python treats as false.
\<close>

datatype json =
    JNull
  | JBool bool
  | JInt int
  | JFloat rat
  | JStr string
  | JList "json list"
  | JObj "(string \<times> json) list"

type_synonym jdict = "(string \<times> json) list"

text \<open>\<open>truthy v\<close> is the value of \<open>v\<close> as a condition, \<open>jget d k x\<close> is \<open>d.get(k, x)\<close> and
  \<open>py_or a b\<close> is \<open>a or b\<close>.\<close>

fun truthy :: "json \<Rightarrow> bool" where
  "truthy JNull = False"
| "truthy (JBool b) = b"
| "truthy (JInt i) = (i \<noteq> 0)"
| "truthy (JFloat r) = (r \<noteq> 0)"
| "truthy (JStr s) = (s \<noteq> [])"
| "truthy (JList l) = (l \<noteq> [])"
| "truthy (JObj d) = (d \<noteq> [])"

definition jget :: "jdict \<Rightarrow> string \<Rightarrow> json \<Rightarrow> json" where
  "jget d k default_value = (case map_of d k of None \<Rightarrow> default_value | Some v \<Rightarrow> v)"

definition py_or :: "json \<Rightarrow> json \<Rightarrow> json" where
  "py_or a b = (if truthy a then a else b)"

subsection \<open>check_token_match\<close>

text \<open>
  The exceptions that the matcher raises. \<open>field_lower token key\<close> is
  \<open>token.get(key, '').lower()\<close>, which raises \<open>AttributeError\<close> when the value is not a
  string. \<open>field_handle token key\<close> is \<open>normalize_twitter_handle(token.get(key, ''))\<close>,
  which answers a value that is false with the empty string before it calls \<open>.lower()\<close>.
\<close>

datatype error = AttributeError | ValueError

definition field_lower :: "jdict \<Rightarrow> string \<Rightarrow> error + string" where
  "field_lower token key =
     (case jget token key (JStr []) of
        JStr s \<Rightarrow> Inr (lower s)
      | _ \<Rightarrow> Inl AttributeError)"

definition field_handle :: "jdict \<Rightarrow> string \<Rightarrow> error + string" where
  "field_handle token key =
     (case jget token key (JStr []) of
        JStr s \<Rightarrow> Inr (normalize_twitter_handle s)
      | handle \<Rightarrow> if truthy handle then Inl AttributeError else Inr [])"

text \<open>
  The body of the loop of \<open>check_token_match\<close> for one filter: the value of \<open>is_match\<close>
  when the body reaches \<open>if is_match\<close>, or the exception that the body raises. In the
  \<open>believe\<close> branch \<open>int(value) if value.isdigit() else 0\<close> raises \<open>ValueError\<close> when
  \<open>isdigit\<close> accepts the value and \<open>int\<close> does not. The strings built for the log line
  (\<open>match_reason\<close>, \<open>followers\<close>) do not flow into the result.
\<close>

definition filter_matches :: "jdict \<Rightarrow> WatchlistFilter \<Rightarrow> error + bool" where
  "filter_matches token filter_obj =
     (let v = lower (fvalue filter_obj) in
      if ftype filter_obj = ''believe'' then
        (if jget token ''source'' JNull = JStr ''believe'' then
           (if isdigit v \<and> py_int v = None then Inl ValueError else Inr True)
         else Inr False)
      else if ftype filter_obj = ''twitter'' then
        (let normalized_filter_value = normalize_twitter_handle v in
         case field_handle token ''twitter'' of
           Inl e \<Rightarrow> Inl e
         | Inr normalized_twitter \<Rightarrow>
             (case field_handle token ''twitterUsername'' of
                Inl e \<Rightarrow> Inl e
              | Inr normalized_twitter_username \<Rightarrow>
                  Inr ((normalized_twitter \<noteq> []
                          \<and> contains normalized_twitter normalized_filter_value)
                       \<or> (normalized_twitter_username \<noteq> []
                          \<and> contains normalized_twitter_username normalized_filter_value))))
      else if ftype filter_obj = ''website'' then
        (case field_lower token ''website'' of
           Inl e \<Rightarrow> Inl e
         | Inr token_website \<Rightarrow> Inr (token_website \<noteq> [] \<and> contains token_website v))
      else if ftype filter_obj = ''token'' then
        (case field_lower token ''name'' of
           Inl e \<Rightarrow> Inl e
         | Inr token_name \<Rightarrow>
             (case field_lower token ''symbol'' of
                Inl e \<Rightarrow> Inl e
              | Inr token_symbol \<Rightarrow>
                  (case field_lower token ''address'' of
                     Inl e \<Rightarrow> Inl e
                   | Inr token_address \<Rightarrow>
                       Inr (if length v > 30 then token_address = v
                            else contains token_name v \<or> contains token_symbol v))))
      else if ftype filter_obj = ''wallet'' then
        (case field_lower token ''deployer'' of
           Inl e \<Rightarrow> Inl e
         | Inr token_deployer \<Rightarrow>
             (case field_lower token ''creator'' of
                Inl e \<Rightarrow> Inl e
              | Inr token_creator \<Rightarrow> Inr (token_deployer = v \<or> token_creator = v)))
      else Inr False)"

text \<open>The loop: the first filter whose body raises or matches ends it.\<close>

fun check_loop :: "jdict \<Rightarrow> WatchlistFilter list \<Rightarrow> error + WatchlistFilter option" where
  "check_loop token [] = Inr None"
| "check_loop token (filter_obj # rest) =
     (case filter_matches token filter_obj of
        Inl e \<Rightarrow> Inl e
      | Inr is_match \<Rightarrow> if is_match then Inr (Some filter_obj) else check_loop token rest)"

definition check_token_match ::
  "jdict \<Rightarrow> WatchlistFilter list \<Rightarrow> error + WatchlistFilter option" where
  "check_token_match token filters =
     (if token = [] \<or> filters = [] then Inr None else check_loop token filters)"

subsection \<open>The matcher on tokens of strings\<close>

text \<open>
  The store below is modelled for tokens whose values are all strings, as the mock tokens
  are and as the feeds build them from items whose fields are strings, and for filters on
  whose value \<open>int\<close> does not raise in the \<open>believe\<close> branch. On these the matcher
  raises nothing, and \<open>check_token_match_str\<close> is its result: the lemma
  \<open>check_token_match_str_agrees\<close> proves that \<open>check_token_match\<close> returns it on the
  token \<open>jtoken_of t\<close>. \<open>tget t k d\<close> is \<open>t.get(k, d)\<close>.
\<close>

type_synonym token = "(string \<times> string) list"

definition jtoken_of :: "token \<Rightarrow> jdict" where
  "jtoken_of t = map (\<lambda>kv. (fst kv, JStr (snd kv))) t"

definition believe_value_ok :: "WatchlistFilter \<Rightarrow> bool" where
  "believe_value_ok filter_obj =
     (\<not> (ftype filter_obj = ''believe'' \<and> isdigit (lower (fvalue filter_obj))
          \<and> py_int (lower (fvalue filter_obj)) = None))"

definition tget :: "token \<Rightarrow> string \<Rightarrow> string \<Rightarrow> string" where
  "tget t k d = (case map_of t k of None \<Rightarrow> d | Some v \<Rightarrow> v)"

definition filter_matches_str :: "token \<Rightarrow> WatchlistFilter \<Rightarrow> bool" where
  "filter_matches_str token filter_obj =
     (let v = lower (fvalue filter_obj) in
      if ftype filter_obj = ''believe'' then
        map_of token ''source'' = Some ''believe''
      else if ftype filter_obj = ''twitter'' then
        (let normalized_filter_value = normalize_twitter_handle v;
             normalized_twitter = normalize_twitter_handle (tget token ''twitter'' []);
             normalized_twitter_username =
               normalize_twitter_handle (tget token ''twitterUsername'' [])
         in (normalized_twitter \<noteq> [] \<and> contains normalized_twitter normalized_filter_value)
            \<or> (normalized_twitter_username \<noteq> []
                \<and> contains normalized_twitter_username normalized_filter_value))
      else if ftype filter_obj = ''website'' then
        (let token_website = lower (tget token ''website'' [])
         in token_website \<noteq> [] \<and> contains token_website v)
      else if ftype filter_obj = ''token'' then
        (let token_name = lower (tget token ''name'' []);
             token_symbol = lower (tget token ''symbol'' []);
             token_address = lower (tget token ''address'' [])
         in if length v > 30 then token_address = v
            else contains token_name v \<or> contains token_symbol v)
      else if ftype filter_obj = ''wallet'' then
        (let token_deployer = lower (tget token ''deployer'' []);
             token_creator = lower (tget token ''creator'' [])
         in token_deployer = v \<or> token_creator = v)
      else False)"

fun check_loop_str :: "token \<Rightarrow> WatchlistFilter list \<Rightarrow> WatchlistFilter option" where
  "check_loop_str token [] = None"
| "check_loop_str token (filter_obj # rest) =
     (if filter_matches_str token filter_obj then Some filter_obj else check_loop_str token rest)"

definition check_token_match_str :: "token \<Rightarrow> WatchlistFilter list \<Rightarrow> WatchlistFilter option" where
  "check_token_match_str token filters =
     (if token = [] \<or> filters = [] then None else check_loop_str token filters)"

section \<open>The match store\<close>

record MatchHistoryEntry =
  entry_token :: token
  entry_timestamp :: int
  entry_filter :: WatchlistFilter

text \<open>
  The context object that the framework hands to a handler. The source keeps the
  per-chat sets of announced addresses in an attribute \<open>chat_matched_tokens\<close> that it
  adds to this object: \<open>None\<close> is the object without the attribute, \<open>Some m\<close> the
  dictionary from tracking keys to sets of addresses.
\<close>

record callback_context =
  chat_matched_tokens :: "(string \<rightharpoonup> string set) option"

text \<open>An entry of \<open>polling_tasks\<close>: whether the task has finished (\<open>task.done()\<close>) and
  the context object it was created with.\<close>

record tracking_task_state =
  task_done :: bool
  task_context :: callback_context

text \<open>The module-level dictionaries of the source, keyed by user id (and by tracking key
  for \<open>polling_tasks\<close>). A key that is absent from a dictionary is \<open>None\<close>.\<close>

record bot_state =
  user_filters :: "int \<rightharpoonup> WatchlistFilter list"
  user_matched_tokens :: "int \<rightharpoonup> token list"
  user_match_history :: "int \<rightharpoonup> MatchHistoryEntry list"
  polling_tasks :: "string \<rightharpoonup> tracking_task_state"

definition lookup_list :: "('k \<rightharpoonup> 'v list) \<Rightarrow> 'k \<Rightarrow> 'v list" where
  "lookup_list m k = (case m k of None \<Rightarrow> [] | Some l \<Rightarrow> l)"

text \<open>The addresses of the tokens that have an \<open>address\<close> key, in order.\<close>

definition addresses_of :: "token list \<Rightarrow> string list" where
  "addresses_of ts = List.map_filter (\<lambda>t. map_of t ''address'') ts"

text \<open>
  The two appends that record a match: the token goes to \<open>user_matched_tokens[user_id]\<close>
  and a \<open>MatchHistoryEntry\<close> to \<open>user_match_history[user_id]\<close>, which is created
  when the user has none. \<open>save_user_data\<close> writes the dictionaries to disk and
  changes none of them; it is not modelled.
\<close>

definition record_match ::
  "int \<Rightarrow> token \<Rightarrow> int \<Rightarrow> WatchlistFilter \<Rightarrow> bot_state \<Rightarrow> bot_state" where
  "record_match user_id token now matched_filter st =
     st\<lparr> user_matched_tokens :=
           (user_matched_tokens st)(user_id \<mapsto> lookup_list (user_matched_tokens st) user_id @ [token]),
         user_match_history :=
           (user_match_history st)(user_id \<mapsto>
              lookup_list (user_match_history st) user_id
              @ [\<lparr> entry_token = token, entry_timestamp = now, entry_filter = matched_filter \<rparr>]) \<rparr>"

subsection \<open>process_new_tokens\<close>

text \<open>
  The loop of \<open>process_new_tokens\<close>. \<open>existing_addresses\<close> is the set computed before
  the loop; the loop reads it and never adds to it. \<open>clock idx\<close> is the reading of the
  clock taken for the token at index \<open>idx\<close>. The result is \<open>new_matches\<close> and the
  state after the loop.
\<close>

fun process_loop ::
  "int \<Rightarrow> string set \<Rightarrow> (nat \<Rightarrow> int) \<Rightarrow> nat \<Rightarrow> token list \<Rightarrow> bot_state
     \<Rightarrow> (token \<times> WatchlistFilter) list \<Rightarrow> (token \<times> WatchlistFilter) list \<times> bot_state" where
  "process_loop user_id existing_addresses clock idx [] st new_matches = (new_matches, st)"
| "process_loop user_id existing_addresses clock idx (token # rest) st new_matches =
     (if (case map_of token ''address'' of Some a \<Rightarrow> a \<in> existing_addresses | None \<Rightarrow> False)
      then process_loop user_id existing_addresses clock (Suc idx) rest st new_matches
      else
        (case check_token_match_str token (lookup_list (user_filters st) user_id) of
           None \<Rightarrow> process_loop user_id existing_addresses clock (Suc idx) rest st new_matches
         | Some matched_filter \<Rightarrow>
             process_loop user_id existing_addresses clock (Suc idx) rest
               (record_match user_id token (clock idx) matched_filter st)
               (new_matches @ [(token, matched_filter)])))"

definition process_new_tokens ::
  "int \<Rightarrow> token list \<Rightarrow> (nat \<Rightarrow> int) \<Rightarrow> bot_state
     \<Rightarrow> (token \<times> WatchlistFilter) list \<times> bot_state" where
  "process_new_tokens user_id tokens clock st =
     (if tokens = [] \<or> user_filters st user_id = None \<or> user_filters st user_id = Some [] then
        ([], st)
      else
        let st1 = (if user_matched_tokens st user_id = None
                   then st\<lparr> user_matched_tokens := (user_matched_tokens st)(user_id \<mapsto> []) \<rparr>
                   else st);
            existing_addresses = set (addresses_of (lookup_list (user_matched_tokens st1) user_id))
        in process_loop user_id existing_addresses clock 0 tokens st1 [])"

subsection \<open>The body of the polling loop\<close>

text \<open>
  \<open>is_new_globally\<close>: no token of the global list has an \<open>address\<close> key with the value of
  the candidate's \<open>address\<close> key. A candidate without the key is always new.
\<close>

definition is_new_globally :: "token \<Rightarrow> token list \<Rightarrow> bool" where
  "is_new_globally token matched =
     (\<not> list_ex (\<lambda>existing_token.
          case (map_of existing_token ''address'', map_of token ''address'') of
            (Some x, Some y) \<Rightarrow> x = y
          | _ \<Rightarrow> False) matched)"

text \<open>
  The \<open>for token in all_tokens\<close> loop of \<open>tracking_task\<close> (and of
  \<open>tracking_task_callback\<close>, which has the same body). \<open>seen\<close> is the set
  \<open>context.chat_matched_tokens[tracking_key]\<close>; the result is the batch \<open>matches\<close>,
  the set and the state after the loop.
\<close>

fun tick_loop ::
  "int \<Rightarrow> (nat \<Rightarrow> int) \<Rightarrow> nat \<Rightarrow> token list \<Rightarrow> bot_state \<Rightarrow> string set
     \<Rightarrow> (token \<times> WatchlistFilter) list
     \<Rightarrow> (token \<times> WatchlistFilter) list \<times> string set \<times> bot_state" where
  "tick_loop user_id clock idx [] st seen matches = (matches, seen, st)"
| "tick_loop user_id clock idx (token # rest) st seen matches =
     (if (case map_of token ''address'' of Some a \<Rightarrow> a \<in> seen | None \<Rightarrow> False)
      then tick_loop user_id clock (Suc idx) rest st seen matches
      else
        (case check_token_match_str token (lookup_list (user_filters st) user_id) of
           None \<Rightarrow> tick_loop user_id clock (Suc idx) rest st seen matches
         | Some matched_filter \<Rightarrow>
             let st1 = (if user_matched_tokens st user_id = None
                        then st\<lparr> user_matched_tokens := (user_matched_tokens st)(user_id \<mapsto> []) \<rparr>
                        else st);
                 st2 = (if is_new_globally token (lookup_list (user_matched_tokens st1) user_id)
                        then record_match user_id token (clock idx) matched_filter st1
                        else st1);
                 seen' = (case map_of token ''address'' of
                            Some a \<Rightarrow> insert a seen
                          | None \<Rightarrow> seen)
             in tick_loop user_id clock (Suc idx) rest st2 seen'
                  (matches @ [(token, matched_filter)])))"

subsection \<open>Decimal rendering of integers\<close>

text \<open>\<open>str_int\<close> is \<open>str(i)\<close>, the rendering an f-string gives an integer.\<close>

definition digit_char :: "nat \<Rightarrow> char" where
  "digit_char n = ''0123456789'' ! (n mod 10)"

fun nat_digits :: "nat \<Rightarrow> string" where
  "nat_digits n = (if n < 10 then [digit_char n] else nat_digits (n div 10) @ [digit_char n])"

declare nat_digits.simps [simp del]

definition str_int :: "int \<Rightarrow> string" where
  "str_int i = (if i < 0 then CHR ''-'' # nat_digits (nat (- i)) else nat_digits (nat i))"


subsection \<open>clear_matches_command\<close>





section \<open>The forms of one Twitter handle\<close>

text \<open>
  A bare handle is a non-empty string without \<open>/\<close>, \<open>?\<close> and whitespace that does not
  start with \<open>@\<close>. The forms of a handle \<open>h\<close> are, up to letter case: \<open>h\<close> itself,
  \<open>@h\<close>, and \<open>h\<close> after a profile URL prefix on \<open>twitter.com\<close> or \<open>x.com\<close>, with or
  without scheme and \<open>www.\<close>.
\<close>

definition is_bare_handle :: "string \<Rightarrow> bool" where
  "is_bare_handle h = (h \<noteq> [] \<and> hd h \<noteq> CHR ''@'' \<and> list_all handle_char h)"

definition twitter_url_prefixes :: "string list" where
  "twitter_url_prefixes =
     [''https://x.com/'', ''http://x.com/'', ''x.com/'',
      ''https://www.x.com/'', ''http://www.x.com/'', ''www.x.com/'',
      ''https://twitter.com/'', ''http://twitter.com/'', ''twitter.com/'',
      ''https://www.twitter.com/'', ''http://www.twitter.com/'', ''www.twitter.com/'']"

definition handle_forms :: "string \<Rightarrow> string list" where
  "handle_forms h =
     lower h # (''@'' @ lower h) # map (\<lambda>p. p @ lower h) twitter_url_prefixes"

definition is_form_of :: "string \<Rightarrow> string \<Rightarrow> bool" where
  "is_form_of h v = (lower v \<in> set (handle_forms h))"

section \<open>Tokens represented in a history\<close>



section \<open>Tokens with an address\<close>

text \<open>
  A token has an address when its \<open>address\<close> key is present with a non-empty value. A
  user's store is addressed when every token of the matched list and the token of every
  history entry has one.
\<close>

definition has_address :: "token \<Rightarrow> bool" where
  "has_address token = (case map_of token ''address'' of None \<Rightarrow> False | Some a \<Rightarrow> a \<noteq> [])"

definition store_addressed :: "bot_state \<Rightarrow> int \<Rightarrow> bool" where
  "store_addressed st u =
     (list_all has_address (lookup_list (user_matched_tokens st) u)
      \<and> list_all (\<lambda>entry. has_address (entry_token entry)) (lookup_list (user_match_history st) u))"

text \<open>
  The dictionary that \<open>fetch_believe_tokens\<close> builds for an item of the Believe feed,
  without \<open>original_data\<close>, which the matcher and the store do not read. An item
  without \<open>ca_address\<close> gets the empty string as its address. \<open>believe_state\<close> is a user with two
  \<open>believe\<close> filters and nothing recorded yet.
\<close>

definition believe_token :: "string \<Rightarrow> string \<Rightarrow> string \<Rightarrow> token" where
  "believe_token ca_address coin_name coin_ticker =
     [(''address'', ca_address), (''name'', coin_name), (''symbol'', coin_ticker),
      (''twitter'', ''''), (''website'', ''''), (''created_at'', ''''),
      (''source'', ''believe'')]"

definition believe_state :: bot_state where
  "believe_state =
     \<lparr> user_filters = [7 \<mapsto> [\<lparr> fid = ''1'', ftype = ''believe'', fvalue = ''0'' \<rparr>,
                              \<lparr> fid = ''2'', ftype = ''believe'', fvalue = ''1000'' \<rparr>]],
       user_matched_tokens = Map.empty,
       user_match_history = Map.empty,
       polling_tasks = Map.empty \<rparr>"

section \<open>Tracking sessions\<close>












section \<open>Fetching with retries\<close>

text \<open>
  What the caller can observe of a run of \<open>fetch_with_retry\<close>: the requests it sends,
  numbered by \<open>attempt\<close>, and the calls of \<open>asyncio.sleep\<close> with their durations in
  seconds.
\<close>

datatype event = Attempt nat | Sleep real

text \<open>
  The three assignments before the sleep. \<open>r\<close> is the value of \<open>random.random()\<close>, a
  number in the half-open interval from 0 to 1; floating-point numbers are taken as reals.
\<close>

definition backoff_delay :: "nat \<Rightarrow> real \<Rightarrow> real" where
  "backoff_delay attempt r =
     (let base_delay = 2 ^ attempt * 2;
          jitter = 1.0 * (0.5 - r);
          delay = min (base_delay + jitter) 20
      in delay)"

text \<open>
  The loop \<open>for attempt in range(max_retries)\<close>. \<open>response attempt\<close> is the outcome of
  the request of that attempt: \<open>Some data\<close> when the status is 200 and the body parses,
  \<open>None\<close> when the \<open>try\<close> block raises. \<open>remaining\<close> counts the iterations that are
  left. The result is the value returned, \<open>None\<close> after the last failed attempt, and the
  events in order.
\<close>

fun retry_loop ::
  "(nat \<Rightarrow> 'a option) \<Rightarrow> (nat \<Rightarrow> real) \<Rightarrow> nat \<Rightarrow> nat \<Rightarrow> nat \<Rightarrow> event list
     \<Rightarrow> 'a option \<times> event list" where
  "retry_loop response rnd max_retries attempt 0 trace = (None, trace)"
| "retry_loop response rnd max_retries attempt (Suc remaining) trace =
     (case response attempt of
        Some data \<Rightarrow> (Some data, trace @ [Attempt attempt])
      | None \<Rightarrow>
          if int attempt < int max_retries - 1 then
            retry_loop response rnd max_retries (Suc attempt) remaining
              (trace @ [Attempt attempt, Sleep (backoff_delay attempt (rnd attempt))])
          else
            retry_loop response rnd max_retries (Suc attempt) remaining
              (trace @ [Attempt attempt]))"

definition fetch_with_retry ::
  "(nat \<Rightarrow> 'a option) \<Rightarrow> (nat \<Rightarrow> real) \<Rightarrow> nat \<Rightarrow> 'a option \<times> event list" where
  "fetch_with_retry response rnd max_retries =
     retry_loop response rnd max_retries 0 max_retries []"

section \<open>The primary feed\<close>

text \<open>
  \<open>is_valid_token_data\<close> and the loop body of \<open>fetch_latest_tokens\<close> on the items of the
  payload.
\<close>

definition is_valid_token_data :: "json \<Rightarrow> bool" where
  "is_valid_token_data item =
     (case item of
        JObj d \<Rightarrow>
          (let has_token = (case map_of d ''token'' of Some (JObj t) \<Rightarrow> True | _ \<Rightarrow> False);
               has_pools = (case map_of d ''pools'' of Some (JList l) \<Rightarrow> length l > 0 | _ \<Rightarrow> False);
               has_direct_fields =
                 ((map_of d ''address'' \<noteq> None \<or> map_of d ''mint'' \<noteq> None
                     \<or> map_of d ''tokenAddress'' \<noteq> None)
                  \<and> (map_of d ''name'' \<noteq> None \<or> map_of d ''symbol'' \<noteq> None))
           in has_token \<or> has_pools \<or> has_direct_fields)
      | _ \<Rightarrow> False)"

text \<open>The local function \<open>extract_value\<close> of the loop body.\<close>

definition extract_value :: "json \<Rightarrow> string \<Rightarrow> json \<Rightarrow> json" where
  "extract_value obj key default_value =
     (case obj of
        JObj d \<Rightarrow> (let v = jget d key default_value in if v \<noteq> JNull then v else default_value)
      | _ \<Rightarrow> default_value)"

text \<open>
  The dictionary \<open>pool_data\<close> after \<open>if pools and len(pools) > 0 and isinstance(pools[0], dict)\<close>.
  The result \<open>None\<close> is an exception: \<open>len\<close> raises \<open>TypeError\<close> on a number or on
  \<open>True\<close>, and \<open>pools[0]\<close> raises \<open>KeyError\<close> on a non-empty dictionary, whose keys are
  strings. \<open>dict_field d k\<close> is \<open>d[k]\<close> when \<open>isinstance(d.get(k), dict)\<close>.
\<close>

definition first_pool :: "json \<Rightarrow> jdict option" where
  "first_pool pools =
     (if \<not> truthy pools then Some []
      else case pools of
             JList l \<Rightarrow> Some (case hd l of JObj p \<Rightarrow> p | _ \<Rightarrow> [])
           | JStr s \<Rightarrow> Some []
           | _ \<Rightarrow> None)"

definition dict_field :: "jdict \<Rightarrow> string \<Rightarrow> jdict option" where
  "dict_field d k = (case map_of d k of Some (JObj v) \<Rightarrow> Some v | _ \<Rightarrow> None)"

text \<open>
  The body of \<open>for item in data\<close> for one item: \<open>Some processed_token\<close> when the token is
  appended to \<open>processed_tokens\<close>, \<open>None\<close> when the item is skipped, the exception
  of \<open>first_pool\<close>, which the inner \<open>except\<close> answers with \<open>continue\<close>, included.
\<close>

definition process_item :: "json \<Rightarrow> jdict option" where
  "process_item item =
     (if \<not> is_valid_token_data item then None
      else
        case item of
          JObj d \<Rightarrow>
            (let token_data0 = (case jget d ''token'' (JObj []) of JObj t \<Rightarrow> t | _ \<Rightarrow> []);
                 token_data = JObj (if token_data0 = [] then d else token_data0)
             in case first_pool (jget d ''pools'' (JList [])) of
                  None \<Rightarrow> None
                | Some pool \<Rightarrow>
                    (let pool_data = JObj pool;
                         address = py_or (extract_value token_data ''mint'' (JStr []))
                                     (py_or (extract_value token_data ''address'' (JStr []))
                                        (extract_value pool_data ''tokenAddress'' (JStr [])));
                         market_cap = (case dict_field pool ''marketCap'' of Some m \<Rightarrow> m | None \<Rightarrow> []);
                         price = (case dict_field pool ''price'' of Some p \<Rightarrow> p | None \<Rightarrow> []);
                         txns = (case dict_field pool ''txns'' of
                                   Some t \<Rightarrow> t
                                 | None \<Rightarrow> (case dict_field d ''txns'' of Some t \<Rightarrow> t | None \<Rightarrow> []));
                         processed_token =
                           [(''address'', address),
                            (''name'', extract_value token_data ''name'' (JStr [])),
                            (''symbol'', extract_value token_data ''symbol'' (JStr [])),
                            (''deployer'', extract_value pool_data ''deployer'' (JStr [])),
                            (''creator'', py_or (extract_value token_data ''creator'' (JStr []))
                                           (extract_value pool_data ''deployer'' (JStr []))),
                            (''website'', extract_value token_data ''website'' (JStr [])),
                            (''twitter'', extract_value token_data ''twitter'' (JStr [])),
                            (''twitterUsername'', extract_value token_data ''twitterUsername'' (JStr [])),
                            (''image'', extract_value token_data ''image'' (JStr [])),
                            (''description'', extract_value token_data ''description'' (JStr [])),
                            (''marketCap'', extract_value (JObj market_cap) ''usd'' (JStr [])),
                            (''price'', extract_value (JObj price) ''usd'' (JStr [])),
                            (''volume'', extract_value (JObj txns) ''volume'' (JStr [])),
                            (''createdAt'', extract_value pool_data ''createdAt'' (JStr []))]
                     in if truthy address then Some processed_token else None))
        | _ \<Rightarrow> None)"

text \<open>
  The items that \<open>for item in data\<close> visits: the elements of a list, the keys of a
  dictionary, the characters of a string. \<open>None\<close> is the \<open>TypeError\<close> of \<open>len(data)\<close> on a
  number or a boolean, which the outer \<open>except\<close> catches.
\<close>

definition payload_items :: "json \<Rightarrow> json list option" where
  "payload_items data =
     (case data of
        JList l \<Rightarrow> Some l
      | JObj d \<Rightarrow> Some (map (\<lambda>kv. JStr (fst kv)) d)
      | JStr s \<Rightarrow> Some (map (\<lambda>c. JStr [c]) s)
      | _ \<Rightarrow> None)"

definition MOCK_TOKENS :: "jdict list" where
  "MOCK_TOKENS =
     [[(''address'', JStr ''mock1111111111111111111111111111111111111''),
       (''name'', JStr ''Mock Token 1''),
       (''symbol'', JStr ''MOCK1''),
       (''deployer'', JStr ''mockdeployer111111111111111111111111111111''),
       (''creator'', JStr ''mockcreator1111111111111111111111111111111''),
       (''website'', JStr ''https://mocktoken1.com''),
       (''twitter'', JStr ''@mocktoken1'')],
      [(''address'', JStr ''mock2222222222222222222222222222222222222''),
       (''name'', JStr ''Mock Token 2''),
       (''symbol'', JStr ''MOCK2''),
       (''deployer'', JStr ''mockdeployer222222222222222222222222222222''),
       (''creator'', JStr ''mockcreator2222222222222222222222222222222''),
       (''website'', JStr ''https://mocktoken2.com''),
       (''twitter'', JStr ''@mocktoken2'')]]"

text \<open>
  The module-level variables of the primary feed: \<open>token_cache\<close> with its entries,
  \<open>last_fetch_time\<close> and \<open>cached_response\<close>. \<open>cache_data\<close> and \<open>get_cached_data\<close> take the
  reading of the clock that they make as the argument \<open>now\<close>; \<open>get_cached_data\<close> reads the
  clock only when the key is in the cache.
\<close>

record cache_entry =
  ce_data :: "jdict list"
  ce_timestamp :: int
  ce_expiresAt :: int

record fetch_state =
  token_cache :: "string \<rightharpoonup> cache_entry"
  last_fetch_time :: int
  cached_response :: "jdict list option"

definition cache_data ::
  "string \<Rightarrow> jdict list \<Rightarrow> int \<Rightarrow> int \<Rightarrow> (string \<rightharpoonup> cache_entry) \<Rightarrow> (string \<rightharpoonup> cache_entry)" where
  "cache_data key d ttl_minutes now cache =
     cache(key \<mapsto> \<lparr> ce_data = d, ce_timestamp = now,
                      ce_expiresAt = now + ttl_minutes * 60 * 1000 \<rparr>)"

definition get_cached_data :: "string \<Rightarrow> int \<Rightarrow> (string \<rightharpoonup> cache_entry) \<Rightarrow> jdict list option" where
  "get_cached_data key now cache =
     (case cache key of
        Some cached \<Rightarrow> if now < ce_expiresAt cached then Some (ce_data cached) else None
      | None \<Rightarrow> None)"

text \<open>\<open>nonempty v\<close> is \<open>v\<close> when \<open>if v\<close> holds for a list or \<open>None\<close>: a list with an element.\<close>

definition nonempty :: "'a list option \<Rightarrow> 'a list option" where
  "nonempty v = (case v of Some (x # xs) \<Rightarrow> Some (x # xs) | _ \<Rightarrow> None)"

text \<open>
  \<open>fetch_latest_tokens\<close>. \<open>clock i\<close> is the reading number \<open>i\<close> of \<open>datetime.now()\<close> in
  milliseconds during the call, \<open>response\<close> and \<open>rnd\<close> are the outcomes of the requests
  and the random values of \<open>fetch_with_retry\<close>. \<open>early_return\<close> is the value returned before
  any request is sent: the rate-limited \<open>cached_response\<close>, or the cache entry when the
  refresh is not forced. \<open>fetched_data\<close> is \<open>data\<close>, where \<open>JNull\<close> is \<open>None\<close>. \<open>k\<close> is the
  number of readings of the clock before the requests: the first one, and the one of the
  cache test when the refresh is not forced and the key is in the cache.
\<close>

definition early_return :: "bool \<Rightarrow> (nat \<Rightarrow> int) \<Rightarrow> fetch_state \<Rightarrow> jdict list option" where
  "early_return force_refresh clock st =
     (let now = clock 0;
          time_since_last_fetch = now - last_fetch_time st;
          rate_limit = 1500
      in if force_refresh then None
         else case (if time_since_last_fetch < rate_limit then nonempty (cached_response st)
                    else None) of
                Some r \<Rightarrow> Some r
              | None \<Rightarrow> nonempty (get_cached_data ''latest-tokens'' (clock 1) (token_cache st)))"

definition fetched_data :: "(nat \<Rightarrow> json option) \<Rightarrow> (nat \<Rightarrow> real) \<Rightarrow> json" where
  "fetched_data response rnd =
     (case fst (fetch_with_retry response rnd 3) of None \<Rightarrow> JNull | Some d \<Rightarrow> d)"

definition fetch_latest_tokens ::
  "bool \<Rightarrow> (nat \<Rightarrow> int) \<Rightarrow> (nat \<Rightarrow> json option) \<Rightarrow> (nat \<Rightarrow> real) \<Rightarrow> fetch_state
     \<Rightarrow> jdict list \<times> fetch_state" where
  "fetch_latest_tokens force_refresh clock response rnd st =
     (case early_return force_refresh clock st of
        Some r \<Rightarrow> (r, st)
      | None \<Rightarrow>
          (let now = clock 0;
               k = (if force_refresh \<or> token_cache st ''latest-tokens'' = None then 1 else 2);
               k' = (if token_cache st ''latest-tokens'' = None then k else k + 1);
               data = fetched_data response rnd
           in if data = JNull then
                (case nonempty (get_cached_data ''latest-tokens'' (clock k) (token_cache st)) of
                   Some cached_data \<Rightarrow> (cached_data, st)
                 | None \<Rightarrow>
                     (MOCK_TOKENS,
                      st\<lparr> token_cache :=
                            cache_data ''latest-tokens'' MOCK_TOKENS 30 (clock k') (token_cache st),
                          cached_response := Some MOCK_TOKENS,
                          last_fetch_time := now \<rparr>))
              else
                (case payload_items data of
                   None \<Rightarrow>
                     (case nonempty (get_cached_data ''latest-tokens'' (clock k) (token_cache st)) of
                        Some cached_data \<Rightarrow> (cached_data, st)
                      | None \<Rightarrow> (MOCK_TOKENS, st))
                 | Some items \<Rightarrow>
                     (let processed_tokens = List.map_filter process_item items
                      in if processed_tokens = [] then (MOCK_TOKENS, st)
                         else
                           (processed_tokens,
                            st\<lparr> token_cache :=
                                  cache_data ''latest-tokens'' processed_tokens 30 (clock k)
                                    (token_cache st),
                                cached_response := Some processed_tokens,
                                last_fetch_time := now \<rparr>)))))"

text \<open>A state with an unexpired cache entry, and a payload whose only item has no address.\<close>

definition cached_token :: jdict where
  "cached_token = [(''address'', JStr ''A1''), (''name'', JStr ''Pump Coin''), (''symbol'', JStr ''PUMP'')]"

definition warm_state :: fetch_state where
  "warm_state =
     \<lparr> token_cache = [''latest-tokens'' \<mapsto>
          \<lparr> ce_data = [cached_token], ce_timestamp = 1000, ce_expiresAt = 1801000 \<rparr>],
       last_fetch_time = 1000,
       cached_response = Some [cached_token] \<rparr>"

definition no_address_payload :: json where
  "no_address_payload = JList [JObj [(''token'', JObj [(''name'', JStr ''Coin'')])]]"

section \<open>The Believe feed\<close>

text \<open>
  The dictionary built for one item of the Believe feed. \<open>None\<close> is the \<open>AttributeError\<close>
  of \<open>token.get\<close> on an item that is not a dictionary.
\<close>

definition believe_processed_token :: "json \<Rightarrow> jdict option" where
  "believe_processed_token token =
     (case token of
        JObj d \<Rightarrow>
          Some ([(''address'', jget d ''ca_address'' (JStr [])),
                 (''name'', jget d ''coin_name'' (JStr [])),
                 (''symbol'', jget d ''coin_ticker'' (JStr [])),
                 (''twitter'', jget d ''twitter_handler'' (JStr [])),
                 (''website'', jget d ''link'' (JStr [])),
                 (''created_at'', jget d ''created_at'' (JStr [])),
                 (''source'', JStr ''believe''),
                 (''original_data'', token)]
                @ (case map_of d ''twitter_info'' of
                     Some (JObj info) \<Rightarrow>
                       [(''twitterFollowers'', jget info ''followers_count'' (JInt 0)),
                        (''twitterVerified'', jget info ''is_blue_verified'' (JBool False))]
                   | _ \<Rightarrow> []))
      | _ \<Rightarrow> None)"

text \<open>
  The module-level variables \<open>believe_token_cache\<close> and \<open>last_believe_fetch_time\<close>. There is
  one time stamp for all values of \<open>min_followers\<close>; the cache has one slot per value.
\<close>

record believe_fetch_state =
  believe_token_cache :: "string \<rightharpoonup> jdict list"
  last_believe_fetch_time :: int

definition believe_cache_key :: "int \<Rightarrow> string" where
  "believe_cache_key min_followers = ''believe-'' @ str_int min_followers"

text \<open>The \<open>except\<close> clause: the slot of the cache key when there is one, else the empty list.\<close>

definition believe_fallback :: "string \<Rightarrow> believe_fetch_state \<Rightarrow> jdict list" where
  "believe_fallback cache_key st =
     (case believe_token_cache st cache_key of Some cached \<Rightarrow> cached | None \<Rightarrow> [])"

text \<open>
  \<open>fetch_believe_tokens\<close>. \<open>now\<close> is the reading of the clock and \<open>response\<close> the outcome
  of the request: \<open>Some data\<close> for status 200 with a body that parses, \<open>None\<close> when the
  request raises.
\<close>

definition fetch_believe_tokens ::
  "int \<Rightarrow> bool \<Rightarrow> int \<Rightarrow> json option \<Rightarrow> believe_fetch_state
     \<Rightarrow> jdict list \<times> believe_fetch_state" where
  "fetch_believe_tokens min_followers force_refresh now response st =
     (let time_since_last_fetch = now - last_believe_fetch_time st;
          rate_limit = 4000;
          cache_key = believe_cache_key min_followers
      in case (if \<not> force_refresh \<and> time_since_last_fetch < rate_limit
               then believe_token_cache st cache_key else None) of
           Some cached \<Rightarrow> (cached, st)
         | None \<Rightarrow>
             (case response of
                None \<Rightarrow> (believe_fallback cache_key st, st)
              | Some data \<Rightarrow>
                  (case data of
                     JList (x # xs) \<Rightarrow>
                       (case those (map believe_processed_token (x # xs)) of
                          None \<Rightarrow> (believe_fallback cache_key st, st)
                        | Some processed_tokens \<Rightarrow>
                            (processed_tokens,
                             st\<lparr> believe_token_cache :=
                                   (believe_token_cache st)(cache_key \<mapsto> processed_tokens),
                                 last_believe_fetch_time := now \<rparr>))
                   | _ \<Rightarrow> ([], st))))"

text \<open>
  Items of the feed and their tokens, and the state after a forced fetch for the threshold
  0 at time 10000 and a forced fetch for the threshold 100 at time 20000.
\<close>

definition believe_item :: "string \<Rightarrow> json" where
  "believe_item ca = JObj [(''ca_address'', JStr ca), (''coin_name'', JStr ''Coin'')]"

definition believe_item_token :: "string \<Rightarrow> jdict" where
  "believe_item_token ca =
     [(''address'', JStr ca), (''name'', JStr ''Coin''), (''symbol'', JStr []),
      (''twitter'', JStr []), (''website'', JStr []), (''created_at'', JStr []),
      (''source'', JStr ''believe''), (''original_data'', believe_item ca)]"

definition believe_start :: believe_fetch_state where
  "believe_start = \<lparr> believe_token_cache = Map.empty, last_believe_fetch_time = 0 \<rparr>"

definition after_two_fetches :: believe_fetch_state where
  "after_two_fetches =
     snd (fetch_believe_tokens 100 True 20000 (Some (JList [believe_item ''B'']))
       (snd (fetch_believe_tokens 0 True 10000 (Some (JList [believe_item ''A''])) believe_start)))"


section \<open>Properties of the filters\<close>

subsection \<open>The pattern on handles and profile URLs\<close>

lemma strip_prefix_Some: "strip_prefix p s = Some r \<Longrightarrow> s = p @ r"
  by (induction p s rule: strip_prefix.induct) (auto split: if_splits)

lemma strip_prefix_append: "strip_prefix p (p @ r) = Some r"
  by (induction p) auto

lemma orelse_simps: "orelse None b = b" "orelse (Some x) b = Some x"
  by (simp_all add: orelse_def)

lemma orelse_Some: "orelse a b = Some g \<Longrightarrow> a = Some g \<or> b = Some g"
  by (auto simp: orelse_def split: option.splits)

lemma re_slash_has_slash: "re_slash s = Some g \<Longrightarrow> CHR ''/'' \<in> set s"
  by (auto simp: re_slash_def split: option.splits dest!: strip_prefix_Some)

lemma re_domain_has_slash: "re_domain s = Some g \<Longrightarrow> CHR ''/'' \<in> set s"
  by (auto simp: re_domain_def split: option.splits
      dest!: orelse_Some strip_prefix_Some re_slash_has_slash)

lemma re_www_has_slash: "re_www s = Some g \<Longrightarrow> CHR ''/'' \<in> set s"
  by (auto simp: re_www_def split: option.splits
      dest!: orelse_Some strip_prefix_Some re_domain_has_slash)

lemma re_scheme_has_slash: "re_scheme s = Some g \<Longrightarrow> CHR ''/'' \<in> set s"
  by (auto simp: re_scheme_def split: option.splits
      dest!: orelse_Some strip_prefix_Some)

lemma match_at_has_slash: "twitter_url_match_at s = Some g \<Longrightarrow> CHR ''/'' \<in> set s"
  by (auto simp: twitter_url_match_at_def dest!: orelse_Some re_scheme_has_slash re_www_has_slash)

lemma match_at_no_slash: "CHR ''/'' \<notin> set s \<Longrightarrow> twitter_url_match_at s = None"
  using match_at_has_slash by (cases "twitter_url_match_at s") auto

lemma search_no_slash: "CHR ''/'' \<notin> set s \<Longrightarrow> twitter_url_search s = None"
  by (induction s) (auto simp: match_at_no_slash orelse_simps)

lemma handle_char_lower [simp]: "handle_char (lower_char c) = handle_char c"
  by (auto simp: lower_char_def upper_chars_def lower_chars_def handle_char_def is_space_def)

lemma lower_char_at [simp]: "(lower_char c = CHR ''@'') = (c = CHR ''@'')"
  by (auto simp: lower_char_def upper_chars_def lower_chars_def)

lemma bare_lower: "is_bare_handle h \<Longrightarrow> is_bare_handle (lower h)"
  by (cases h) (auto simp: is_bare_handle_def lower_def list_all_iff)

lemma bare_no_slash: "is_bare_handle s \<Longrightarrow> CHR ''/'' \<notin> set s"
  by (auto simp: is_bare_handle_def list_all_iff handle_char_def)

lemma bare_group: "is_bare_handle s \<Longrightarrow> re_group s = Some s"
proof -
  assume b: "is_bare_handle s"
  then have t: "takeWhile handle_char s = s"
    by (simp add: is_bare_handle_def list_all_iff)
  from b have "s \<noteq> []" by (simp add: is_bare_handle_def)
  then show ?thesis by (simp add: re_group_def Let_def t)
qed

lemma bare_at: "is_bare_handle s \<Longrightarrow> re_at s = Some s"
  by (cases s) (auto simp: re_at_def bare_group orelse_simps is_bare_handle_def)

lemma bare_hashbang: "is_bare_handle s \<Longrightarrow> re_hashbang s = Some s"
proof -
  assume b: "is_bare_handle s"
  have "strip_prefix ''#!/'' s = None"
  proof (cases "strip_prefix ''#!/'' s")
    case (Some r)
    then have "s = ''#!/'' @ r" by (rule strip_prefix_Some)
    with bare_no_slash [OF b] show ?thesis by auto
  qed simp
  with b show ?thesis by (simp add: re_hashbang_def bare_at orelse_simps)
qed

lemma bare_slash: "is_bare_handle s \<Longrightarrow> re_slash (CHR ''/'' # s) = Some s"
  by (simp add: re_slash_def bare_hashbang)

lemma match_at_prefix:
  assumes b: "is_bare_handle s" and p: "p \<in> set twitter_url_prefixes"
  shows "twitter_url_match_at (p @ s) = Some s"
proof -
  have d: "re_domain (''x.com/'' @ s) = Some s" "re_domain (''twitter.com/'' @ s) = Some s"
    using b by (simp_all add: re_domain_def orelse_simps bare_slash)
  have w: "re_www (''x.com/'' @ s) = Some s" "re_www (''twitter.com/'' @ s) = Some s"
    "re_www (''www.x.com/'' @ s) = Some s" "re_www (''www.twitter.com/'' @ s) = Some s"
    using d by (simp_all add: re_www_def orelse_simps)
  have m: "twitter_url_match_at (''x.com/'' @ s) = Some s"
    "twitter_url_match_at (''twitter.com/'' @ s) = Some s"
    "twitter_url_match_at (''www.x.com/'' @ s) = Some s"
    "twitter_url_match_at (''www.twitter.com/'' @ s) = Some s"
    "twitter_url_match_at (''http://x.com/'' @ s) = Some s"
    "twitter_url_match_at (''http://twitter.com/'' @ s) = Some s"
    "twitter_url_match_at (''http://www.x.com/'' @ s) = Some s"
    "twitter_url_match_at (''http://www.twitter.com/'' @ s) = Some s"
    "twitter_url_match_at (''https://x.com/'' @ s) = Some s"
    "twitter_url_match_at (''https://twitter.com/'' @ s) = Some s"
    "twitter_url_match_at (''https://www.x.com/'' @ s) = Some s"
    "twitter_url_match_at (''https://www.twitter.com/'' @ s) = Some s"
    using w by (simp_all add: twitter_url_match_at_def re_scheme_def orelse_simps)
  from p show ?thesis
    unfolding twitter_url_prefixes_def using m by auto
qed

lemma search_prefix:
  "is_bare_handle s \<Longrightarrow> p \<in> set twitter_url_prefixes \<Longrightarrow> twitter_url_search (p @ s) = Some s"
proof -
  assume b: "is_bare_handle s" and p: "p \<in> set twitter_url_prefixes"
  from p obtain c cs where pc: "p = c # cs" by (cases p) (auto simp: twitter_url_prefixes_def)
  from match_at_prefix [OF b p] show ?thesis by (simp add: pc orelse_simps)
qed

lemma bare_not_at: "is_bare_handle s \<Longrightarrow> \<not> startswith s ''@''"
  by (cases s) (auto simp: is_bare_handle_def)

lemma lower_Nil [simp]: "(lower v = []) = (v = [])"
  by (simp add: lower_def)

lemma normalize_form:
  assumes b: "is_bare_handle h" and f: "is_form_of h v"
  shows "normalize_twitter_handle v = lower h"
proof -
  let ?s = "lower h"
  have bs: "is_bare_handle ?s" using b by (rule bare_lower)
  then have ne: "?s \<noteq> []" by (simp add: is_bare_handle_def)
  from f consider (plain) "lower v = ?s" | (at) "lower v = CHR ''@'' # ?s"
    | (url) p where "p \<in> set twitter_url_prefixes" "lower v = p @ ?s"
    by (auto simp: is_form_of_def handle_forms_def)
  then show ?thesis
  proof cases
    case plain
    with ne have "lower v \<noteq> []" by simp
    then have "v \<noteq> []" by simp
    moreover have "twitter_url_search ?s = None"
      using bs by (simp add: search_no_slash bare_no_slash)
    ultimately show ?thesis
      using plain bs by (simp add: normalize_twitter_handle_def bare_not_at)
  next
    case at
    then have "lower v \<noteq> []" by simp
    then have "v \<noteq> []" by simp
    moreover have "twitter_url_search (CHR ''@'' # ?s) = None"
      using bs by (intro search_no_slash) (auto dest: bare_no_slash)
    ultimately show ?thesis
      using at by (simp add: normalize_twitter_handle_def)
  next
    case url
    then have "lower v \<noteq> []" using ne by simp
    then have "v \<noteq> []" by simp
    moreover have "twitter_url_search (p @ ?s) = Some ?s"
      using bs url(1) by (rule search_prefix)
    ultimately show ?thesis
      using url bs by (simp add: normalize_twitter_handle_def bare_not_at)
  qed
qed

subsection \<open>Equality of filters\<close>

lemma are_filters_equal_commute: "are_filters_equal f1 f2 = are_filters_equal f2 f1"
proof (cases "ftype f1 = ftype f2")
  case False
  then have "ftype f2 \<noteq> ftype f1" by simp
  with False show ?thesis by (simp add: are_filters_equal_def)
next
  case True
  have "are_filters_equal f1 f2 = are_filters_equal f2 f1"
    unfolding are_filters_equal_def True [symmetric]
    by (cases "py_int (fvalue f1)"; cases "py_int (fvalue f2)") auto
  then show ?thesis .
qed

text \<open>
  Claim C7. For bare handles \<open>h1\<close> and \<open>h2\<close>, a \<open>twitter\<close> filter whose value is a form of
  \<open>h1\<close> and one whose value is a form of \<open>h2\<close> (the handle itself, the handle after \<open>@\<close>,
  the handle after a profile URL prefix, each in any letter case) are equal for
  \<open>are_filters_equal\<close> exactly when the two handles agree up to letter case, whatever the
  ids are. So any two forms of one handle are equal filters, and forms of different handles
  are not.
\<close>

theorem twitter_filters_equal_forms:
  assumes "is_bare_handle h1" and "is_bare_handle h2"
    and "is_form_of h1 v1" and "is_form_of h2 v2"
  shows "are_filters_equal \<lparr> fid = i1, ftype = ''twitter'', fvalue = v1 \<rparr>
                           \<lparr> fid = i2, ftype = ''twitter'', fvalue = v2 \<rparr>
         = (lower h1 = lower h2)"
  using assms by (simp add: are_filters_equal_def normalize_form)

text \<open>The three values of the specification, \<open>@Foo\<close>, \<open>foo\<close> and \<open>https://x.com/foo\<close>,
  are forms of the bare handle \<open>foo\<close> and pairwise equal; \<open>@Bar\<close> is a form of another
  handle and not equal to them.\<close>

theorem twitter_filters_equal_forms_witness:
  "is_bare_handle ''foo'' \<and> is_bare_handle ''bar''
   \<and> is_form_of ''foo'' ''@Foo'' \<and> is_form_of ''foo'' ''foo''
   \<and> is_form_of ''foo'' ''https://x.com/foo'' \<and> is_form_of ''bar'' ''@Bar''
   \<and> are_filters_equal \<lparr> fid = ''1'', ftype = ''twitter'', fvalue = ''@Foo'' \<rparr>
                         \<lparr> fid = ''2'', ftype = ''twitter'', fvalue = ''foo'' \<rparr>
   \<and> are_filters_equal \<lparr> fid = ''1'', ftype = ''twitter'', fvalue = ''@Foo'' \<rparr>
                         \<lparr> fid = ''3'', ftype = ''twitter'', fvalue = ''https://x.com/foo'' \<rparr>
   \<and> are_filters_equal \<lparr> fid = ''2'', ftype = ''twitter'', fvalue = ''foo'' \<rparr>
                         \<lparr> fid = ''3'', ftype = ''twitter'', fvalue = ''https://x.com/foo'' \<rparr>
   \<and> \<not> are_filters_equal \<lparr> fid = ''3'', ftype = ''twitter'', fvalue = ''https://x.com/foo'' \<rparr>
                           \<lparr> fid = ''4'', ftype = ''twitter'', fvalue = ''@Bar'' \<rparr>"
proof -
  have b: "is_bare_handle ''foo''" "is_bare_handle ''bar''"
    by (simp_all add: is_bare_handle_def handle_char_def is_space_def)
  have f1: "is_form_of ''foo'' ''@Foo''"
    by (simp add: is_form_of_def handle_forms_def lower_def lower_char_def upper_chars_def
        lower_chars_def)
  have f2: "is_form_of ''foo'' ''foo''"
    by (simp add: is_form_of_def handle_forms_def lower_def lower_char_def upper_chars_def
        lower_chars_def)
  have f3: "is_form_of ''foo'' ''https://x.com/foo''"
    by (simp add: is_form_of_def handle_forms_def lower_def lower_char_def upper_chars_def
        lower_chars_def twitter_url_prefixes_def)
  have f4: "is_form_of ''bar'' ''@Bar''"
    by (simp add: is_form_of_def handle_forms_def lower_def lower_char_def upper_chars_def
        lower_chars_def)
  have l: "lower ''foo'' \<noteq> lower ''bar''"
    by (simp add: lower_def lower_char_def upper_chars_def lower_chars_def)
  show ?thesis
    using b f1 f2 f3 f4 l
      twitter_filters_equal_forms [OF b(1) b(1) f1 f2, of "''1''" "''2''"]
      twitter_filters_equal_forms [OF b(1) b(1) f1 f3, of "''1''" "''3''"]
      twitter_filters_equal_forms [OF b(1) b(1) f2 f3, of "''2''" "''3''"]
      twitter_filters_equal_forms [OF b(1) b(2) f3 f4, of "''3''" "''4''"]
    by simp
qed

text \<open>
  Claim C10. \<open>are_filters_equal\<close> is symmetric, for all filters: the kinds are compared
  first, and every branch, the \<open>believe\<close> branch with its fallback to the raw strings
  included, compares the two values by an equality.
\<close>

theorem are_filters_equal_symmetric:
  "are_filters_equal f1 f2 = are_filters_equal f2 f1"
  by (rule are_filters_equal_commute)

text \<open>Two \<open>believe\<close> filters, in both orders.\<close>

theorem are_filters_equal_symmetric_witness:
  "are_filters_equal \<lparr> fid = ''1'', ftype = ''believe'', fvalue = ''1_0'' \<rparr>
                     \<lparr> fid = ''2'', ftype = ''believe'', fvalue = ''ten'' \<rparr>
   = are_filters_equal \<lparr> fid = ''2'', ftype = ''believe'', fvalue = ''ten'' \<rparr>
                       \<lparr> fid = ''1'', ftype = ''believe'', fvalue = ''1_0'' \<rparr>"
  using are_filters_equal_symmetric
    [of "\<lparr> fid = ''1'', ftype = ''believe'', fvalue = ''1_0'' \<rparr>"
        "\<lparr> fid = ''2'', ftype = ''believe'', fvalue = ''ten'' \<rparr>"]
  by simp

section \<open>Properties of the matcher\<close>








subsection \<open>The matcher on tokens of strings\<close>

lemma map_of_jtoken_of: "map_of (jtoken_of t) k = map_option JStr (map_of t k)"
  by (induction t) (auto simp: jtoken_of_def)

lemma jtoken_of_Nil: "(jtoken_of t = []) = (t = [])"
  by (simp add: jtoken_of_def)

lemma jget_jtoken_of: "jget (jtoken_of t) k (JStr d) = JStr (tget t k d)"
  by (simp add: jget_def tget_def map_of_jtoken_of split: option.splits)

lemma field_lower_jtoken_of: "field_lower (jtoken_of t) k = Inr (lower (tget t k []))"
  by (simp add: field_lower_def jget_jtoken_of)

lemma field_handle_jtoken_of:
  "field_handle (jtoken_of t) k = Inr (normalize_twitter_handle (tget t k []))"
  by (simp add: field_handle_def jget_jtoken_of)

lemma source_jtoken_of:
  "(jget (jtoken_of t) ''source'' JNull = JStr ''believe'') = (map_of t ''source'' = Some ''believe'')"
  by (auto simp: jget_def map_of_jtoken_of split: option.splits)

lemma filter_matches_str_agrees:
  "believe_value_ok f \<Longrightarrow> filter_matches (jtoken_of t) f = Inr (filter_matches_str t f)"
  unfolding filter_matches_def filter_matches_str_def believe_value_ok_def
    field_lower_jtoken_of field_handle_jtoken_of source_jtoken_of Let_def
  by auto

lemma check_loop_str_agrees:
  "\<forall>f \<in> set filters. believe_value_ok f \<Longrightarrow>
     check_loop (jtoken_of t) filters = Inr (check_loop_str t filters)"
  by (induction filters) (simp_all add: filter_matches_str_agrees)

lemma check_token_match_str_agrees:
  "\<forall>f \<in> set filters. believe_value_ok f \<Longrightarrow>
     check_token_match (jtoken_of t) filters = Inr (check_token_match_str t filters)"
  by (simp add: check_token_match_def check_token_match_str_def check_loop_str_agrees
      jtoken_of_Nil)

section \<open>Clearing the matched tokens\<close>







section \<open>Recording matches\<close>

lemma record_match_addressed:
  "has_address token \<Longrightarrow> store_addressed st u \<Longrightarrow>
     store_addressed (record_match user_id token now f st) u"
  by (auto simp add: store_addressed_def record_match_def lookup_list_def)

lemma init_matched_addressed:
  "store_addressed st u \<Longrightarrow>
     store_addressed (if user_matched_tokens st user_id = None
                      then st\<lparr> user_matched_tokens := (user_matched_tokens st)(user_id \<mapsto> []) \<rparr>
                      else st) u"
  by (simp add: store_addressed_def lookup_list_def)

lemma process_loop_addressed:
  "list_all has_address tokens \<Longrightarrow> store_addressed st u \<Longrightarrow>
     store_addressed (snd (process_loop user_id ex clock idx tokens st ms)) u"
proof (induction tokens arbitrary: st ms idx)
  case Nil
  then show ?case by simp
next
  case (Cons t ts)
  then have t: "has_address t" and ts: "list_all has_address ts" by simp_all
  show ?case
  proof (cases "case map_of t ''address'' of Some a \<Rightarrow> a \<in> ex | None \<Rightarrow> False")
    case True
    then show ?thesis using Cons.IH [OF ts Cons.prems(2)] by simp
  next
    case False
    show ?thesis
    proof (cases "check_token_match_str t (lookup_list (user_filters st) user_id)")
      case None
      then show ?thesis using False Cons.IH [OF ts Cons.prems(2)] by simp
    next
      case (Some f)
      then show ?thesis
        using False Cons.IH [OF ts record_match_addressed [OF t Cons.prems(2)]] by simp
    qed
  qed
qed

lemma process_new_tokens_addressed:
  "list_all has_address tokens \<Longrightarrow> store_addressed st u \<Longrightarrow>
     store_addressed (snd (process_new_tokens user_id tokens clock st)) u"
  unfolding process_new_tokens_def Let_def
  using process_loop_addressed init_matched_addressed by simp

lemma tick_loop_addressed:
  "list_all has_address tokens \<Longrightarrow> store_addressed st u \<Longrightarrow>
     store_addressed (snd (snd (tick_loop user_id clock idx tokens st seen ms))) u"
proof (induction tokens arbitrary: st ms idx seen)
  case Nil
  then show ?case by simp
next
  case (Cons t ts)
  then have t: "has_address t" and ts: "list_all has_address ts" by simp_all
  show ?case
  proof (cases "case map_of t ''address'' of Some a \<Rightarrow> a \<in> seen | None \<Rightarrow> False")
    case True
    then show ?thesis using Cons.IH [OF ts Cons.prems(2)] by simp
  next
    case False
    show ?thesis
    proof (cases "check_token_match_str t (lookup_list (user_filters st) user_id)")
      case None
      then show ?thesis using False Cons.IH [OF ts Cons.prems(2)] by simp
    next
      case (Some f)
      let ?st1 = "if user_matched_tokens st user_id = None
                  then st\<lparr> user_matched_tokens := (user_matched_tokens st)(user_id \<mapsto> []) \<rparr>
                  else st"
      let ?st2 = "if is_new_globally t (lookup_list (user_matched_tokens ?st1) user_id)
                  then record_match user_id t (clock idx) f ?st1 else ?st1"
      have 1: "store_addressed ?st1 u" using init_matched_addressed [OF Cons.prems(2)] .
      have 2: "store_addressed ?st2 u"
      proof (cases "is_new_globally t (lookup_list (user_matched_tokens ?st1) user_id)")
        case True
        then show ?thesis using record_match_addressed [OF t 1] by (simp only: if_True)
      next
        case False
        then show ?thesis using 1 by (simp only: if_False)
      qed
      show ?thesis
        using False Some Cons.IH [OF ts 2] by (simp add: Let_def)
    qed
  qed
qed

text \<open>
  Claim C1 (amended). When every token of the candidate batch has a non-empty address,
  \<open>process_new_tokens\<close> and the loop body of \<open>tracking_task\<close> keep every user's store
  addressed: if all matched tokens and all history entries had a non-empty address before,
  they all have one afterwards.
\<close>

theorem addressed_batch_keeps_store_addressed:
  assumes "list_all has_address tokens" and "store_addressed st u"
  shows "store_addressed (snd (process_new_tokens user_id tokens clock st)) u
       \<and> store_addressed (snd (snd (tick_loop user_id clock 0 tokens st seen []))) u"
  using process_new_tokens_addressed [OF assms] tick_loop_addressed [OF assms] by simp

lemmas store_eval = process_new_tokens_def believe_state_def believe_token_def lookup_list_def
  check_token_match_str_def filter_matches_str_def record_match_def addresses_of_def
  List.map_filter_simps is_new_globally_def Let_def has_address_def store_addressed_def

text \<open>
  Neither function looks at the address before it records a match. A Believe token with the
  empty address matches a \<open>believe\<close> filter and is appended to the matched list and to the
  history by both.
\<close>

theorem addressless_token_is_recorded:
  "\<not> has_address (believe_token '''' ''Coin'' ''COIN'')
   \<and> store_addressed believe_state 7
   \<and> user_matched_tokens
       (snd (process_new_tokens 7 [believe_token '''' ''Coin'' ''COIN''] (\<lambda>_. 5) believe_state)) 7
       = Some [believe_token '''' ''Coin'' ''COIN'']
   \<and> map entry_token (lookup_list (user_match_history
         (snd (process_new_tokens 7 [believe_token '''' ''Coin'' ''COIN''] (\<lambda>_. 5) believe_state))) 7)
       = [believe_token '''' ''Coin'' ''COIN'']
   \<and> user_matched_tokens
       (snd (snd (tick_loop 7 (\<lambda>_. 5) 0 [believe_token '''' ''Coin'' ''COIN''] believe_state {} []))) 7
       = Some [believe_token '''' ''Coin'' ''COIN'']
   \<and> map entry_token (lookup_list (user_match_history
         (snd (snd (tick_loop 7 (\<lambda>_. 5) 0 [believe_token '''' ''Coin'' ''COIN''] believe_state {} [])))) 7)
       = [believe_token '''' ''Coin'' ''COIN'']"
  by (simp add: store_eval)

text \<open>A Believe token with the address \<open>CA1\<close> is recorded and the store stays addressed.\<close>

theorem addressed_batch_keeps_store_addressed_witness:
  "list_all has_address [believe_token ''CA1'' ''Coin'' ''COIN'']
   \<and> store_addressed believe_state 7
   \<and> store_addressed
        (snd (process_new_tokens 7 [believe_token ''CA1'' ''Coin'' ''COIN''] (\<lambda>_. 5) believe_state)) 7
   \<and> store_addressed
        (snd (snd (tick_loop 7 (\<lambda>_. 5) 0 [believe_token ''CA1'' ''Coin'' ''COIN''] believe_state {} []))) 7
   \<and> user_matched_tokens
        (snd (process_new_tokens 7 [believe_token ''CA1'' ''Coin'' ''COIN''] (\<lambda>_. 5) believe_state)) 7
       = Some [believe_token ''CA1'' ''Coin'' ''COIN'']"
proof -
  have a: "list_all has_address [believe_token ''CA1'' ''Coin'' ''COIN'']"
    by (simp add: has_address_def believe_token_def)
  have b: "store_addressed believe_state 7"
    by (simp add: store_addressed_def believe_state_def lookup_list_def)
  have c: "user_matched_tokens
        (snd (process_new_tokens 7 [believe_token ''CA1'' ''Coin'' ''COIN''] (\<lambda>_. 5) believe_state)) 7
       = Some [believe_token ''CA1'' ''Coin'' ''COIN'']"
    by (simp add: store_eval)
  show ?thesis
    using a b c addressed_batch_keeps_store_addressed [OF a b, of 7 "\<lambda>_. 5" "{}"] by simp
qed

text \<open>
  Claim C2. \<open>process_new_tokens\<close> computes the set of recorded addresses once, before its
  loop. Two matching tokens with the same address in one batch are both appended to the
  matched list and to the history. Two successive calls with that token record it once, and
  so does the loop body of \<open>tracking_task\<close> on the same batch, which tests the list as
  it grows.
\<close>

theorem same_address_twice_in_one_batch:
  "user_matched_tokens
     (snd (process_new_tokens 7
        [believe_token ''CA1'' ''Coin'' ''COIN'', believe_token ''CA1'' ''Coin'' ''COIN'']
        (\<lambda>_. 5) believe_state)) 7
     = Some [believe_token ''CA1'' ''Coin'' ''COIN'', believe_token ''CA1'' ''Coin'' ''COIN'']
   \<and> map entry_token (lookup_list (user_match_history
       (snd (process_new_tokens 7
          [believe_token ''CA1'' ''Coin'' ''COIN'', believe_token ''CA1'' ''Coin'' ''COIN'']
          (\<lambda>_. 5) believe_state))) 7)
     = [believe_token ''CA1'' ''Coin'' ''COIN'', believe_token ''CA1'' ''Coin'' ''COIN'']
   \<and> user_matched_tokens
       (snd (process_new_tokens 7 [believe_token ''CA1'' ''Coin'' ''COIN''] (\<lambda>_. 6)
          (snd (process_new_tokens 7 [believe_token ''CA1'' ''Coin'' ''COIN''] (\<lambda>_. 5) believe_state)))) 7
     = Some [believe_token ''CA1'' ''Coin'' ''COIN'']
   \<and> user_matched_tokens
       (snd (snd (tick_loop 7 (\<lambda>_. 5) 0
          [believe_token ''CA1'' ''Coin'' ''COIN'', believe_token ''CA1'' ''Coin'' ''COIN'']
          believe_state {} []))) 7
     = Some [believe_token ''CA1'' ''Coin'' ''COIN'']"
  by (simp add: store_eval)

section \<open>Stopping and starting a tracking session\<close>


lemma record_match_filters [simp]:
  "user_filters (record_match user_id token now f st) = user_filters st"
  by (simp add: record_match_def)








section \<open>The retry loop\<close>

lemma fetch_with_retry_3:
  "fetch_with_retry response rnd 3 =
     (case response 0 of
        Some data \<Rightarrow> (Some data, [Attempt 0])
      | None \<Rightarrow>
          (case response 1 of
             Some data \<Rightarrow> (Some data, [Attempt 0, Sleep (backoff_delay 0 (rnd 0)), Attempt 1])
           | None \<Rightarrow>
               (response 2,
                [Attempt 0, Sleep (backoff_delay 0 (rnd 0)), Attempt 1,
                 Sleep (backoff_delay 1 (rnd 1)), Attempt 2])))"
  by (simp add: fetch_with_retry_def numeral_3_eq_3 numeral_2_eq_2 split: option.splits)

lemma backoff_delay_bounds:
  assumes "0 \<le> r" and "r < 1"
  shows "\<exists>jitter. - 0.5 \<le> jitter \<and> jitter \<le> 0.5
           \<and> backoff_delay k r = min (2 ^ k * 2 + jitter) 20
           \<and> backoff_delay k r \<le> 20"
proof (intro exI [of _ "0.5 - r"] conjI)
  show "- 0.5 \<le> 0.5 - r" using assms by simp
  show "0.5 - r \<le> 0.5" using assms by simp
  show "backoff_delay k r = min (2 ^ k * 2 + (0.5 - r)) 20"
    by (simp add: backoff_delay_def)
  show "backoff_delay k r \<le> 20" by (simp add: backoff_delay_def)
qed

text \<open>
  Claim C9. With three retries, \<open>fetch_with_retry\<close> sends one, two or three requests.
  It sleeps once between two consecutive requests and never after the last one. The sleep
  after attempt \<open>k\<close> lasts \<open>min (2 ^ k * 2 + jitter) 20\<close> seconds with a jitter between
  \<open>-0.5\<close> and \<open>0.5\<close>, which is at most 20 seconds.
\<close>

theorem fetch_with_retry_attempts_and_sleeps:
  assumes "\<And>i. 0 \<le> rnd i \<and> rnd i < 1"
  shows "(snd (fetch_with_retry response rnd 3) = [Attempt 0]
          \<or> snd (fetch_with_retry response rnd 3)
              = [Attempt 0, Sleep (backoff_delay 0 (rnd 0)), Attempt 1]
          \<or> snd (fetch_with_retry response rnd 3)
              = [Attempt 0, Sleep (backoff_delay 0 (rnd 0)), Attempt 1,
                 Sleep (backoff_delay 1 (rnd 1)), Attempt 2])
       \<and> (\<forall>k. \<exists>jitter. - 0.5 \<le> jitter \<and> jitter \<le> 0.5
               \<and> backoff_delay k (rnd k) = min (2 ^ k * 2 + jitter) 20
               \<and> backoff_delay k (rnd k) \<le> 20)"
proof
  show "snd (fetch_with_retry response rnd 3) = [Attempt 0]
          \<or> snd (fetch_with_retry response rnd 3)
              = [Attempt 0, Sleep (backoff_delay 0 (rnd 0)), Attempt 1]
          \<or> snd (fetch_with_retry response rnd 3)
              = [Attempt 0, Sleep (backoff_delay 0 (rnd 0)), Attempt 1,
                 Sleep (backoff_delay 1 (rnd 1)), Attempt 2]"
    by (simp add: fetch_with_retry_3 split: option.splits)
next
  show "\<forall>k. \<exists>jitter. - 0.5 \<le> jitter \<and> jitter \<le> 0.5
               \<and> backoff_delay k (rnd k) = min (2 ^ k * 2 + jitter) 20
               \<and> backoff_delay k (rnd k) \<le> 20"
    using assms backoff_delay_bounds by blast
qed

text \<open>Three failed attempts with the random value \<open>1 / 4\<close> each time.\<close>

theorem fetch_with_retry_attempts_and_sleeps_witness:
  "(\<forall>i. (0::real) \<le> (\<lambda>_. 1 / 4) i \<and> (\<lambda>_. 1 / 4) i < (1::real))
   \<and> fetch_with_retry (\<lambda>_. None :: unit option) (\<lambda>_. 1 / 4) 3
       = (None, [Attempt 0, Sleep (9 / 4), Attempt 1, Sleep (17 / 4), Attempt 2])
   \<and> (\<exists>jitter. - 0.5 \<le> jitter \<and> jitter \<le> 0.5
         \<and> backoff_delay 1 (1 / 4) = min (2 ^ 1 * 2 + jitter) 20
         \<and> backoff_delay 1 (1 / 4) \<le> (20::real))"
proof -
  have r: "\<And>i::nat. (0::real) \<le> (\<lambda>_. 1 / 4) i \<and> (\<lambda>_. 1 / 4) i < (1::real)" by simp
  have e: "fetch_with_retry (\<lambda>_. None :: unit option) (\<lambda>_. 1 / 4) 3
       = (None, [Attempt 0, Sleep (9 / 4), Attempt 1, Sleep (17 / 4), Attempt 2])"
    by (simp add: fetch_with_retry_3 backoff_delay_def)
  from fetch_with_retry_attempts_and_sleeps [of "\<lambda>_. 1 / 4" "\<lambda>_. None :: unit option", OF r]
  have "\<exists>jitter. - 0.5 \<le> jitter \<and> jitter \<le> 0.5
         \<and> backoff_delay 1 ((\<lambda>_. 1 / 4) (1::nat)) = min (2 ^ 1 * 2 + jitter) 20
         \<and> backoff_delay 1 ((\<lambda>_. 1 / 4) (1::nat)) \<le> (20::real)"
    by blast
  then show ?thesis using e by simp
qed

section \<open>Fallbacks of the primary feed\<close>

lemma fetched_data_failed:
  "response 0 = None \<Longrightarrow> response 1 = None \<Longrightarrow> response 2 = None \<Longrightarrow>
     fetched_data response rnd = JNull"
  by (simp add: fetched_data_def fetch_with_retry_3)

text \<open>
  Claim C3 (amended). Take a call of \<open>fetch_latest_tokens\<close> that sends its request. When all
  retries fail, the result is the unexpired non-empty cache entry if there is one and the
  mock tokens otherwise. When the payload gives no valid token, the result is the mock
  tokens and the state is unchanged, whatever the cache holds.
\<close>

theorem fetch_latest_tokens_fallback:
  assumes "early_return force_refresh clock st = None"
  shows "(fetched_data response rnd = JNull \<longrightarrow>
            fst (fetch_latest_tokens force_refresh clock response rnd st)
              = (case nonempty (get_cached_data ''latest-tokens''
                                  (clock (if force_refresh then 1 else 2)) (token_cache st)) of
                   Some cached_data \<Rightarrow> cached_data
                 | None \<Rightarrow> MOCK_TOKENS))
       \<and> (\<forall>items. payload_items (fetched_data response rnd) = Some items
                   \<and> List.map_filter process_item items = [] \<longrightarrow>
            fetch_latest_tokens force_refresh clock response rnd st = (MOCK_TOKENS, st))"
proof (intro conjI allI impI)
  assume n: "fetched_data response rnd = JNull"
  show "fst (fetch_latest_tokens force_refresh clock response rnd st)
              = (case nonempty (get_cached_data ''latest-tokens''
                                  (clock (if force_refresh then 1 else 2)) (token_cache st)) of
                   Some cached_data \<Rightarrow> cached_data
                 | None \<Rightarrow> MOCK_TOKENS)"
  proof (cases "token_cache st ''latest-tokens''")
    case None
    then have "get_cached_data ''latest-tokens'' now (token_cache st) = None" for now
      by (simp add: get_cached_data_def)
    then show ?thesis
      using assms n None by (simp add: fetch_latest_tokens_def Let_def nonempty_def)
  next
    case (Some cached)
    then show ?thesis
      using assms n by (simp add: fetch_latest_tokens_def Let_def split: option.splits)
  qed
next
  fix items
  assume a: "payload_items (fetched_data response rnd) = Some items
             \<and> List.map_filter process_item items = []"
  then have "fetched_data response rnd \<noteq> JNull"
    by (auto simp: payload_items_def)
  with a show "fetch_latest_tokens force_refresh clock response rnd st = (MOCK_TOKENS, st)"
    using assms by (simp add: fetch_latest_tokens_def Let_def)
qed

lemma no_address_payload_fetched:
  "fetched_data (\<lambda>_. Some no_address_payload) rnd = no_address_payload"
  by (simp add: fetched_data_def fetch_with_retry_3)

lemma no_address_payload_not_null: "no_address_payload \<noteq> JNull"
  by (simp add: no_address_payload_def)

lemma no_address_item:
  "process_item (JObj [(''token'', JObj [(''name'', JStr ''Coin'')])]) = None"
  by (simp add: process_item_def is_valid_token_data_def jget_def first_pool_def
      extract_value_def py_or_def dict_field_def Let_def)

lemma no_address_payload_items:
  "payload_items no_address_payload = Some [JObj [(''token'', JObj [(''name'', JStr ''Coin'')])]]"
  "List.map_filter process_item [JObj [(''token'', JObj [(''name'', JStr ''Coin'')])]] = []"
  by (simp_all add: no_address_payload_def payload_items_def no_address_item)

text \<open>
  With an unexpired cache entry and a payload without valid tokens, a forced fetch returns
  the mock tokens and not the cache entry; with failed requests it returns the cache entry.
\<close>

theorem zero_valid_tokens_ignores_cache:
  "get_cached_data ''latest-tokens'' 5000 (token_cache warm_state) = Some [cached_token]
   \<and> List.map_filter process_item [JObj [(''token'', JObj [(''name'', JStr ''Coin'')])]] = []
   \<and> fst (fetch_latest_tokens True (\<lambda>_. 5000) (\<lambda>_. Some no_address_payload) (\<lambda>_. 0) warm_state)
       = MOCK_TOKENS
   \<and> MOCK_TOKENS \<noteq> [cached_token]
   \<and> fst (fetch_latest_tokens True (\<lambda>_. 5000) (\<lambda>_. None) (\<lambda>_. 0) warm_state) = [cached_token]"
proof -
  have 1: "get_cached_data ''latest-tokens'' 5000 (token_cache warm_state) = Some [cached_token]"
    by (simp add: get_cached_data_def warm_state_def)
  have 2: "early_return True (\<lambda>_. 5000) warm_state = None"
    by (simp add: early_return_def)
  have 3: "fst (fetch_latest_tokens True (\<lambda>_. 5000) (\<lambda>_. Some no_address_payload) (\<lambda>_. 0) warm_state)
       = MOCK_TOKENS"
    by (simp add: fetch_latest_tokens_def 2 no_address_payload_fetched no_address_payload_items
        no_address_payload_not_null no_address_item Let_def)
  have 4: "MOCK_TOKENS \<noteq> [cached_token]" by (simp add: MOCK_TOKENS_def)
  have 5: "fst (fetch_latest_tokens True (\<lambda>_. 5000) (\<lambda>_. None) (\<lambda>_. 0) warm_state) = [cached_token]"
    by (simp add: fetch_latest_tokens_def 2 fetched_data_failed 1 nonempty_def Let_def)
  show ?thesis using 1 no_address_payload_items(2) 3 4 5 by simp
qed

text \<open>Both cases of the fallback in the state with the cache entry.\<close>

theorem fetch_latest_tokens_fallback_witness:
  "early_return True (\<lambda>_. 5000) warm_state = None
   \<and> fetched_data (\<lambda>_. None) (\<lambda>_. 0) = JNull
   \<and> fst (fetch_latest_tokens True (\<lambda>_. 5000) (\<lambda>_. None) (\<lambda>_. 0) warm_state) = [cached_token]
   \<and> payload_items (fetched_data (\<lambda>_. Some no_address_payload) (\<lambda>_. 0))
       = Some [JObj [(''token'', JObj [(''name'', JStr ''Coin'')])]]
   \<and> List.map_filter process_item [JObj [(''token'', JObj [(''name'', JStr ''Coin'')])]] = []
   \<and> fetch_latest_tokens True (\<lambda>_. 5000) (\<lambda>_. Some no_address_payload) (\<lambda>_. 0) warm_state
       = (MOCK_TOKENS, warm_state)"
proof -
  have e: "early_return True (\<lambda>_. 5000) warm_state = None"
    by (simp add: early_return_def)
  have f: "fetched_data (\<lambda>_. None) (\<lambda>_. 0) = JNull"
    by (simp add: fetched_data_failed)
  have c: "nonempty (get_cached_data ''latest-tokens'' 5000 (token_cache warm_state))
             = Some [cached_token]"
    by (simp add: get_cached_data_def warm_state_def nonempty_def)
  have p: "payload_items (fetched_data (\<lambda>_. Some no_address_payload) (\<lambda>_. 0))
       = Some [JObj [(''token'', JObj [(''name'', JStr ''Coin'')])]]"
    by (simp add: no_address_payload_fetched no_address_payload_items)
  note t1 = fetch_latest_tokens_fallback [OF e, of "\<lambda>_. None" "\<lambda>_. 0"]
  note t2 = fetch_latest_tokens_fallback [OF e, of "\<lambda>_. Some no_address_payload" "\<lambda>_. 0"]
  have a: "fst (fetch_latest_tokens True (\<lambda>_. 5000) (\<lambda>_. None) (\<lambda>_. 0) warm_state) = [cached_token]"
    using t1 f c by simp
  have b: "fetch_latest_tokens True (\<lambda>_. 5000) (\<lambda>_. Some no_address_payload) (\<lambda>_. 0) warm_state
       = (MOCK_TOKENS, warm_state)"
    using t2 p no_address_payload_items(2) by blast
  show ?thesis using e f a p no_address_payload_items(2) b by simp
qed

section \<open>The rate limit of the Believe feed\<close>

lemma live_fetch_state:
  assumes "items \<noteq> []" and "those (map believe_processed_token items) = Some processed_tokens"
  shows "fetch_believe_tokens t1 True now1 (Some (JList items)) st =
           (processed_tokens,
            st\<lparr> believe_token_cache :=
                  (believe_token_cache st)(believe_cache_key t1 \<mapsto> processed_tokens),
                last_believe_fetch_time := now1 \<rparr>)"
proof -
  from assms(1) obtain x xs where "items = x # xs" by (cases items) auto
  with assms(2) show ?thesis by (simp add: fetch_believe_tokens_def Let_def)
qed

text \<open>
  Claim C4 (amended). After a live fetch for a threshold \<open>t1\<close> at time \<open>now1\<close>, a fetch
  without \<open>force_refresh\<close> for any threshold \<open>t2\<close> at time \<open>now2\<close> is answered from the
  slot of \<open>t2\<close> when \<open>now2 - now1 < 4000\<close> and the slot exists, and is a live fetch
  otherwise. The window of four seconds starts at the last live fetch of any threshold.
\<close>

theorem believe_rate_limit_window_is_shared:
  assumes "items \<noteq> []"
    and "those (map believe_processed_token items) = Some processed_tokens"
    and "st1 = snd (fetch_believe_tokens t1 True now1 (Some (JList items)) st)"
  shows "fetch_believe_tokens t2 False now2 response2 st1 =
           (if now2 - now1 < 4000 then
              (case believe_token_cache st1 (believe_cache_key t2) of
                 Some cached \<Rightarrow> (cached, st1)
               | None \<Rightarrow> fetch_believe_tokens t2 True now2 response2 st1)
            else fetch_believe_tokens t2 True now2 response2 st1)"
proof -
  have l: "last_believe_fetch_time st1 = now1"
    unfolding assms(3) live_fetch_state [OF assms(1,2)] by simp
  show ?thesis
    by (simp add: fetch_believe_tokens_def [of t2] l Let_def split: option.splits)
qed

lemma believe_item_processed:
  "believe_processed_token (believe_item ca) = Some (believe_item_token ca)"
  by (simp add: believe_processed_token_def believe_item_def believe_item_token_def jget_def)

lemma cache_keys:
  "believe_cache_key 0 = ''believe-0''" "believe_cache_key 100 = ''believe-100''"
  by (simp_all add: believe_cache_key_def str_int_def nat_digits.simps digit_char_def)

lemma after_two_fetches_eq:
  "after_two_fetches =
     \<lparr> believe_token_cache =
         [''believe-0'' \<mapsto> [believe_item_token ''A''],
          ''believe-100'' \<mapsto> [believe_item_token ''B'']],
       last_believe_fetch_time = 20000 \<rparr>"
  by (simp add: after_two_fetches_def fetch_believe_tokens_def cache_keys believe_start_def
      believe_item_processed Let_def)

text \<open>
  The threshold 0 was fetched at 10000 and the threshold 100 at 20000. At 21000 a fetch for
  0 without \<open>force_refresh\<close> returns the slot of 0 from 10000 and sends no request, although
  the last live fetch for 0 is eleven seconds old.
\<close>

theorem other_threshold_fetch_suppresses:
  "(0::int) \<noteq> 100
   \<and> believe_cache_key 0 \<noteq> believe_cache_key 100
   \<and> last_believe_fetch_time after_two_fetches = 20000
   \<and> (21000::int) - 20000 < 4000
   \<and> \<not> (21000::int) - 10000 < 4000
   \<and> fetch_believe_tokens 0 False 21000 (Some (JList [believe_item ''C''])) after_two_fetches
       = ([believe_item_token ''A''], after_two_fetches)
   \<and> fst (fetch_believe_tokens 0 True 21000 (Some (JList [believe_item ''C''])) after_two_fetches)
       = [believe_item_token ''C'']
   \<and> believe_item_token ''A'' \<noteq> believe_item_token ''C''"
  by (simp add: after_two_fetches_eq fetch_believe_tokens_def cache_keys Let_def
      believe_item_processed believe_item_token_def)

text \<open>The same run as an instance of the theorem.\<close>

theorem believe_rate_limit_window_is_shared_witness:
  "[believe_item ''B''] \<noteq> []
   \<and> those (map believe_processed_token [believe_item ''B''])
       = Some [believe_item_token ''B'']
   \<and> (21000::int) - 20000 < 4000
   \<and> believe_token_cache after_two_fetches (believe_cache_key 0)
       = Some [believe_item_token ''A'']
   \<and> fetch_believe_tokens 0 False 21000 (Some (JList [believe_item ''C''])) after_two_fetches
       = ([believe_item_token ''A''], after_two_fetches)"
proof -
  have a: "[believe_item ''B''] \<noteq> []" by simp
  have b: "those (map believe_processed_token [believe_item ''B''])
       = Some [believe_item_token ''B'']"
    by (simp add: believe_item_processed)
  have c: "believe_token_cache after_two_fetches (believe_cache_key 0)
       = Some [believe_item_token ''A'']"
    by (simp add: after_two_fetches_eq cache_keys)
  have d: "after_two_fetches =
     snd (fetch_believe_tokens 100 True 20000 (Some (JList [believe_item ''B'']))
       (snd (fetch_believe_tokens 0 True 10000 (Some (JList [believe_item ''A''])) believe_start)))"
    by (rule after_two_fetches_def)
  from believe_rate_limit_window_is_shared [OF a b d, of 0 21000 "Some (JList [believe_item ''C''])"]
  have "fetch_believe_tokens 0 False 21000 (Some (JList [believe_item ''C''])) after_two_fetches
       = ([believe_item_token ''A''], after_two_fetches)"
    using c by simp
  with a b c show ?thesis by simp
qed

end
